theory Spec2Isabelle
  imports Main "HOL-Library.Word"
begin

section \<open>The BLE bridge of the agent: protocol frames, transport loop, dispatcher\<close>

text \<open>
  A shallow embedding of package \<open>labsscratch\<close>: \<open>jsonrpc.go\<close> (frames, \<open>wsRead\<close>,
  \<open>WsReadLoop\<close>), \<open>types.go\<close> (the parameter structs) and the latest revision of the
  handler (\<open>matchDevice\<close>, \<open>getDeviceCharacteristic\<close>, \<open>notificationCallback\<close>,
  \<open>startAsyncScan\<close>, \<open>GetHandler\<close>).

  Go strings, \<open>json.RawMessage\<close> and the frames of the connection are byte strings
  (\<open>string\<close>), a \<open>[]byte\<close> of the BLE library is a list of 8-bit words, \<open>int64\<close> and
  \<open>int16\<close> are words, a \<open>uuid.UUID\<close> (16 bytes) is a 128-bit word. A Go \<open>panic\<close> is a value of type \<open>panic\<close>; nothing in the package recovers one.
\<close>

subsection \<open>Data model (\<open>jsonrpc.go\<close>, \<open>types.go\<close>)\<close>

type_synonym byte = "8 word"
type_synonym uuid = "128 word"
type_synonym raw = string

record Msg =
  Id :: "64 word"
  Jsonrpc :: string
  Method :: string
  Params :: raw

text \<open>The values the handler passes as \<open>Result.Result\<close> (an \<open>interface{}\<close> in the source).\<close>

datatype rvalue = RNull | RMap "(string \<times> string) list" | RInt int | RString string

record Result =
  Result_Id :: "64 word"
  Result_Jsonrpc :: string
  Result_Result :: rvalue
  Result_Encoding :: string

record Error =
  Error_Id :: "64 word"
  Error_Jsonrpc :: string
  Error_Error :: string

record Device =
  Device_PeripheralId :: string
  Device_Name :: string
  Device_RSSI :: "16 word"

record DiscoverFilter =
  Name :: string
  NamePrefix :: string
  Services :: "uuid list"

record DiscoverParams =
  Filters :: "DiscoverFilter list"

record ConnectParams =
  PeripheralId :: string

record NotificationsParams =
  ServiceId :: uuid
  CharacteristicId :: uuid

text \<open>
  \<open>UpdateParams\<close> and \<open>ReadParams\<close> repeat the two fields of \<open>NotificationsParams\<close> in
  the source; here they extend it, so that the field names stay the source's.
\<close>

record UpdateParams = NotificationsParams +
  Message :: string
  Encoding :: string
  WithResponse :: bool

record ReadParams = NotificationsParams +
  StartNotifications :: bool

text \<open>
  \<open>bluetooth.ScanResult\<close> belongs to the BLE library: an advertisement with its address
  (as \<open>Address.String()\<close> prints it), signal strength, local name and advertised service
  UUIDs.
\<close>

record ScanResult =
  Address :: string
  RSSI :: "16 word"
  LocalName :: string
  ServiceUUIDs :: "uuid list"

definition HasServiceUUID :: "ScanResult \<Rightarrow> uuid \<Rightarrow> bool" where
  "HasServiceUUID device u \<longleftrightarrow> u \<in> set (ServiceUUIDs device)"

datatype panic = NilDereference | IndexOutOfRange | PanicErr string | PanicStr string

subsection \<open>Base64 (\<open>base64.StdEncoding.EncodeToString\<close>)\<close>

text \<open>
  The standard alphabet of RFC 4648 with \<open>=\<close> padding, as Go's \<open>encoding/base64\<close>
  implements it: three bytes give four characters, a last group of one or two bytes is
  padded.
\<close>

definition encodeStd :: string where
  "encodeStd = ''ABCDEFGHIJKLMNOPQRSTUVWXYZabcdefghijklmnopqrstuvwxyz0123456789+/''"

definition enc :: "nat \<Rightarrow> char" where
  "enc i = encodeStd ! (i mod 64)"

fun EncodeToString :: "byte list \<Rightarrow> string" where
  "EncodeToString [] = []"
| "EncodeToString [a] =
     (let v = unat a * 65536
      in [enc (v div 262144), enc (v div 4096), CHR ''='', CHR ''=''])"
| "EncodeToString [a, b] =
     (let v = unat a * 65536 + unat b * 256
      in [enc (v div 262144), enc (v div 4096), enc (v div 64), CHR ''=''])"
| "EncodeToString (a # b # c # rest) =
     (let v = unat a * 65536 + unat b * 256 + unat c
      in [enc (v div 262144), enc (v div 4096), enc (v div 64), enc v]
         @ EncodeToString rest)"

subsection \<open>Replies (\<open>jsonrpc.go\<close>)\<close>

definition RespondBytes :: "Msg \<Rightarrow> byte list \<Rightarrow> Result" where
  "RespondBytes m buf =
     \<lparr>Result_Id = Id m, Result_Jsonrpc = ''2.0'',
      Result_Result = RString (EncodeToString buf), Result_Encoding = ''base64''\<rparr>"

definition Respond :: "Msg \<Rightarrow> rvalue \<Rightarrow> Result" where
  "Respond m data =
     \<lparr>Result_Id = Id m, Result_Jsonrpc = ''2.0'', Result_Result = data, Result_Encoding = []\<rparr>"

definition Error :: "Msg \<Rightarrow> string \<Rightarrow> Error" where
  "Error m err = \<lparr>Error_Id = Id m, Error_Jsonrpc = ''2.0'', Error_Error = err\<rparr>"

subsection \<open>Filter matching (\<open>matchDevice\<close>) and the scan callback\<close>

text \<open>The inner loop of \<open>matchDevice\<close>: false at the first service not advertised.\<close>

fun hasServices :: "ScanResult \<Rightarrow> uuid list \<Rightarrow> bool" where
  "hasServices device [] = True"
| "hasServices device (service # services) =
     (if \<not> HasServiceUUID device service then False else hasServices device services)"

fun matchDevice :: "ScanResult \<Rightarrow> DiscoverFilter list \<Rightarrow> bool" where
  "matchDevice device [] = True"
| "matchDevice device (flt # filters) =
     (if length (Name flt) \<noteq> 0 \<and> Name flt \<noteq> LocalName device then False
      else if \<not> hasServices device (Services flt) then False
      else matchDevice device filters)"

text \<open>
  The callback \<open>startAsyncScan\<close> gives to \<open>adapter.Scan\<close>: \<open>None\<close> when it returns without
  sending, otherwise the \<open>Device\<close> it puts on the channel.
\<close>

definition scanCallback :: "DiscoverFilter list \<Rightarrow> ScanResult \<Rightarrow> Device option" where
  "scanCallback filters device =
     (if length (LocalName device) = 0 then None
      else if \<not> matchDevice device filters then None
      else Some \<lparr>Device_PeripheralId = Address device, Device_Name = LocalName device,
                 Device_RSSI = RSSI device\<rparr>)"

text \<open>
  The specification's words for one filter entry: it matches when (a) its name is empty
  or equals the advertised local name exactly, and (b) every UUID of its services is in
  the advertised service set.
\<close>

definition filter_matches :: "ScanResult \<Rightarrow> DiscoverFilter \<Rightarrow> bool" where
  "filter_matches device f \<longleftrightarrow>
     (Name f = [] \<or> Name f = LocalName device) \<and>
     set (Services f) \<subseteq> set (ServiceUUIDs device)"

lemma hasServices_iff: "hasServices device us \<longleftrightarrow> set us \<subseteq> set (ServiceUUIDs device)"
  by (induction us) (auto simp: HasServiceUUID_def)

lemma matchDevice_iff: "matchDevice device fs \<longleftrightarrow> list_all (filter_matches device) fs"
  by (induction fs) (auto simp: filter_matches_def hasServices_iff)


subsection \<open>The collaborators: JSON, base64 decoding, the BLE library\<close>

text \<open>
  Handles of the BLE library (\<open>*bluetooth.Device\<close>, \<open>DeviceService\<close>,
  \<open>DeviceCharacteristic\<close>) are opaque; a \<open>nil\<close> pointer is \<open>None\<close>.
\<close>

type_synonym device = nat
type_synonym service = nat
type_synonym characteristic = nat

text \<open>
  The closure \<open>notificationCallback(c, ServiceId, CharacteristicId)\<close>, as the two values
  it captures (the connection \<open>c\<close> is the session's own).
\<close>

datatype callback = NotificationCallback uuid uuid

text \<open>The values given to \<open>NewMsg\<close> as \<open>params\<close>, and to \<open>WsSend\<close> as \<open>data\<close>.\<close>

datatype params_value = UpdateP UpdateParams | DeviceP Device

datatype frame = FMsg Msg | FResult Result | FError Error

text \<open>The calls made on the BLE library, in the order they are made.\<close>

datatype call =
    StopScan
  | Scan "DiscoverFilter list"
  | Connect string
  | DiscoverServices device "uuid list"
  | DiscoverCharacteristics service "uuid list"
  | EnableNotifications characteristic "callback option"
  | WriteWithoutResponse characteristic "byte list"
  | Read characteristic

text \<open>
  What the package calls and does not define, as parameters: \<open>encoding/json\<close>
  (\<open>json.Unmarshal\<close> at each type it is used at, \<open>json.Marshal\<close>),
  \<open>base64.StdEncoding.DecodeString\<close>, and the BLE library over its own state \<open>'w\<close>.
  A Go result \<open>(v, err)\<close> whose value is only read when \<open>err\<close> is \<open>nil\<close> is a sum with
  the error on the left; \<open>adapter.Connect\<close> keeps both, since the handler stores the
  pointer before it looks at the error. \<open>json.Unmarshal\<close> into \<open>msg\<close> takes the message
  it decodes into: \<open>wsRead\<close> reuses one variable for every frame it reads. Of
  \<open>json.Marshal\<close> in \<open>WsSend\<close> only the error matters here: \<open>sent\<close> keeps the frame
  itself, not its bytes.
\<close>

record 'w env =
  json_Unmarshal_Msg :: "string \<Rightarrow> Msg \<Rightarrow> string + Msg"
  json_Unmarshal_DiscoverParams :: "raw \<Rightarrow> string + DiscoverParams"
  json_Unmarshal_ConnectParams :: "raw \<Rightarrow> string + ConnectParams"
  json_Unmarshal_NotificationsParams :: "raw \<Rightarrow> string + NotificationsParams"
  json_Unmarshal_UpdateParams :: "raw \<Rightarrow> string + UpdateParams"
  json_Unmarshal_ReadParams :: "raw \<Rightarrow> string + ReadParams"
  json_Unmarshal_map :: "raw \<Rightarrow> string option"
  json_Marshal :: "params_value \<Rightarrow> string + raw"
  json_Marshal_frame :: "frame \<Rightarrow> string option"
  base64_DecodeString :: "string \<Rightarrow> string + byte list"
  ble_StopScan :: "'w \<Rightarrow> 'w"
  ble_Scan :: "'w \<Rightarrow> string option \<times> 'w"
  ble_Connect :: "string \<Rightarrow> 'w \<Rightarrow> (device option \<times> string option) \<times> 'w"
  ble_DiscoverServices :: "device \<Rightarrow> uuid list \<Rightarrow> 'w \<Rightarrow> (string + service list) \<times> 'w"
  ble_DiscoverCharacteristics ::
    "service \<Rightarrow> uuid list \<Rightarrow> 'w \<Rightarrow> (string + characteristic list) \<times> 'w"
  ble_EnableNotifications :: "characteristic \<Rightarrow> callback option \<Rightarrow> 'w \<Rightarrow> string option \<times> 'w"
  ble_WriteWithoutResponse :: "characteristic \<Rightarrow> byte list \<Rightarrow> 'w \<Rightarrow> (string + int) \<times> 'w"
  ble_Read :: "characteristic \<Rightarrow> 'w \<Rightarrow> (string + byte list) \<times> 'w"

subsection \<open>The transport loop (\<open>wsRead\<close>, \<open>WsReadLoop\<close>)\<close>

text \<open>
  A connection, as its reader sees it: the frames still to come, then the error every
  further \<open>c.Read\<close> returns (\<open>io.EOF\<close> when the peer closed).
\<close>

datatype io_error = EOF | IOError string

type_synonym conn = "string list \<times> io_error"

datatype ws_error = WsRead io_error | WsDecode string

datatype read_result = ReadMsg Msg conn | ReadErr ws_error | ReadPanic panic

definition zeroMsg :: Msg where
  "zeroMsg = \<lparr>Id = 0, Jsonrpc = [], Method = [], Params = []\<rparr>"

text \<open>
  The \<open>for\<close> loop of \<open>wsRead\<close>, over the variable \<open>msg\<close> it decodes into. \<open>c.Read(buff)\<close>
  with a 512-byte buffer returns at most 512 bytes of the frame.
\<close>

fun wsRead_loop :: "'w env \<Rightarrow> Msg \<Rightarrow> string list \<Rightarrow> io_error \<Rightarrow> read_result" where
  "wsRead_loop env msg [] e = ReadErr (WsRead e)"
| "wsRead_loop env msg (frame # rest) e =
     (let n = min (length frame) 512 in
      if n \<ge> 512 then ReadPanic (PanicStr ''too big'')
      else case json_Unmarshal_Msg env (take n frame) msg of
             Inl err \<Rightarrow> ReadErr (WsDecode err)
           | Inr msg' \<Rightarrow>
               if length (Method msg') = 0 then wsRead_loop env msg' rest e
               else ReadMsg msg' (rest, e))"

definition wsRead :: "'w env \<Rightarrow> conn \<Rightarrow> read_result" where
  "wsRead env c = wsRead_loop env zeroMsg (fst c) (snd c)"

lemma wsRead_loop_shorter:
  "wsRead_loop env msg frames e = ReadMsg m c' \<Longrightarrow> length (fst c') < length frames"
proof (induction frames arbitrary: msg)
  case Nil
  then show ?case by simp
next
  case (Cons frame rest)
  show ?case
  proof (cases "512 \<le> length frame")
    case True
    with Cons.prems show ?thesis by (simp add: Let_def)
  next
    case False
    note small = this
    show ?thesis
    proof (cases "json_Unmarshal_Msg env frame msg")
      case (Inl err)
      with small Cons.prems show ?thesis by (simp add: Let_def)
    next
      case (Inr msg')
      show ?thesis
      proof (cases "Method msg' = []")
        case True
        with small Inr Cons.prems have "wsRead_loop env msg' rest e = ReadMsg m c'"
          by (simp add: Let_def)
        then have "length (fst c') < length rest" by (rule Cons.IH)
        then show ?thesis by simp
      next
        case False
        with small Inr Cons.prems show ?thesis by (auto simp: Let_def)
      qed
    qed
  qed
qed

lemma wsRead_shorter: "wsRead env c = ReadMsg m c' \<Longrightarrow> length (fst c') < length (fst c)"
  unfolding wsRead_def by (rule wsRead_loop_shorter)

text \<open>
  \<open>WsReadLoop\<close> runs its loop before it returns the channel (the function literal is
  called, not started with \<open>go\<close>), so nothing receives from \<open>out\<close> while it fills: the
  channel holds 100 messages, and the send of one more never returns. The loop ends at
  \<open>io.EOF\<close> (\<open>break\<close>) and at any other error (a warning, \<open>return\<close>); both close the
  channel.
\<close>

datatype loop_result = Closed "Msg list" | Blocked | LoopPanic panic

function WsReadLoop_run :: "'w env \<Rightarrow> Msg list \<Rightarrow> conn \<Rightarrow> loop_result" where
  "WsReadLoop_run env out c =
     (case wsRead env c of
        ReadPanic p \<Rightarrow> LoopPanic p
      | ReadErr (WsRead EOF) \<Rightarrow> Closed out
      | ReadErr _ \<Rightarrow> Closed out
      | ReadMsg msg c' \<Rightarrow>
          if length out \<ge> 100 then Blocked else WsReadLoop_run env (out @ [msg]) c')"
  by pat_completeness auto
termination
  by (relation "measure (\<lambda>(env, out, c). length (fst c))") (auto dest: wsRead_shorter)

definition WsReadLoop :: "'w env \<Rightarrow> conn \<Rightarrow> loop_result" where
  "WsReadLoop env c = WsReadLoop_run env [] c"


subsection \<open>Session state and sending (\<open>NewMsg\<close>, \<open>WsSend\<close>)\<close>

text \<open>
  \<open>DEVICE\<close> is the handler's variable and \<open>MsgID\<close> the package's counter. \<open>sent\<close> lists
  the frames given to \<open>c.Write\<close> and \<open>calls\<close> the calls made on the BLE library.
  \<open>scanning\<close> and \<open>notifying\<close> are the library's side of the session: the filters of the
  scan that is running, and the callback enabled on each characteristic.
\<close>

record 'w state =
  DEVICE :: "device option"
  MsgID :: "64 word"
  sent :: "frame list"
  calls :: "call list"
  world :: 'w
  scanning :: "DiscoverFilter list option"
  notifying :: "(characteristic \<times> callback) list"

datatype 'w outcome = Running "'w state" | Panicked panic "'w state"

fun final :: "'w outcome \<Rightarrow> 'w state" where
  "final (Running st) = st"
| "final (Panicked p st) = st"

datatype 'a res = Val 'a | Err string | Pan panic

definition NewMsg :: "'w env \<Rightarrow> string \<Rightarrow> params_value \<Rightarrow> 'w state \<Rightarrow> (panic + Msg) \<times> 'w state" where
  "NewMsg env method params st =
     (case json_Marshal env params of
        Inl err \<Rightarrow> (Inl (PanicErr err), st)
      | Inr buff \<Rightarrow>
          (Inr \<lparr>Id = MsgID st + 1, Jsonrpc = ''2.0'', Method = method, Params = buff\<rparr>,
           st\<lparr>MsgID := MsgID st + 1\<rparr>))"

text \<open>
  \<open>WsSend\<close> returns the error of \<open>c.Write\<close>, and every caller drops it: the frame counts
  as sent once it is given to \<open>c.Write\<close>.
\<close>

definition WsSend :: "'w env \<Rightarrow> frame \<Rightarrow> 'w state \<Rightarrow> 'w outcome" where
  "WsSend env data st =
     (case json_Marshal_frame env data of
        Some err \<Rightarrow> Panicked (PanicErr err) st
      | None \<Rightarrow> Running (st\<lparr>sent := sent st @ [data]\<rparr>))"

text \<open>\<open>WsSend(c, NewMsg(method, params))\<close>.\<close>

definition push :: "'w env \<Rightarrow> string \<Rightarrow> params_value \<Rightarrow> 'w state \<Rightarrow> 'w outcome" where
  "push env method params st =
     (case NewMsg env method params st of
        (Inl p, st1) \<Rightarrow> Panicked p st1
      | (Inr m, st1) \<Rightarrow> WsSend env (FMsg m) st1)"

text \<open>The body of the closure \<open>notificationCallback\<close> returns, applied to \<open>buf\<close>.\<close>

fun notificationCallback :: "'w env \<Rightarrow> callback \<Rightarrow> byte list \<Rightarrow> 'w state \<Rightarrow> 'w outcome" where
  "notificationCallback env (NotificationCallback ServiceId' CharacteristicId') buf st =
     push env ''characteristicDidChange''
       (UpdateP \<lparr>ServiceId = ServiceId', CharacteristicId = CharacteristicId',
                 Message = EncodeToString buf, Encoding = ''base64'', WithResponse = False\<rparr>) st"

subsection \<open>Calls on the BLE library\<close>

definition call_StopScan :: "'w env \<Rightarrow> 'w state \<Rightarrow> 'w state" where
  "call_StopScan env st =
     st\<lparr>world := ble_StopScan env (world st), calls := calls st @ [StopScan],
        scanning := None\<rparr>"

definition call_Scan :: "'w env \<Rightarrow> DiscoverFilter list \<Rightarrow> 'w state \<Rightarrow> 'w state" where
  "call_Scan env filters st =
     (case ble_Scan env (world st) of
        (err, w) \<Rightarrow>
          st\<lparr>world := w, calls := calls st @ [Scan filters],
             scanning := (if err = None then Some filters else None)\<rparr>)"

definition call_Connect ::
  "'w env \<Rightarrow> string \<Rightarrow> 'w state \<Rightarrow> (device option \<times> string option) \<times> 'w state" where
  "call_Connect env mac st =
     (case ble_Connect env mac (world st) of
        (r, w) \<Rightarrow> (r, st\<lparr>world := w, calls := calls st @ [Connect mac]\<rparr>))"

definition call_DiscoverServices ::
  "'w env \<Rightarrow> device \<Rightarrow> uuid list \<Rightarrow> 'w state \<Rightarrow> (string + service list) \<times> 'w state" where
  "call_DiscoverServices env d ids st =
     (case ble_DiscoverServices env d ids (world st) of
        (r, w) \<Rightarrow> (r, st\<lparr>world := w, calls := calls st @ [DiscoverServices d ids]\<rparr>))"

definition call_DiscoverCharacteristics ::
  "'w env \<Rightarrow> service \<Rightarrow> uuid list \<Rightarrow> 'w state \<Rightarrow> (string + characteristic list) \<times> 'w state" where
  "call_DiscoverCharacteristics env s ids st =
     (case ble_DiscoverCharacteristics env s ids (world st) of
        (r, w) \<Rightarrow> (r, st\<lparr>world := w, calls := calls st @ [DiscoverCharacteristics s ids]\<rparr>))"

text \<open>
  \<open>char.EnableNotifications(cb)\<close>: when the library reports no error, \<open>cb\<close> replaces the
  callback of the characteristic, and \<open>nil\<close> removes it.
\<close>

definition call_EnableNotifications ::
  "'w env \<Rightarrow> characteristic \<Rightarrow> callback option \<Rightarrow> 'w state \<Rightarrow> string option \<times> 'w state" where
  "call_EnableNotifications env ch cb st =
     (case ble_EnableNotifications env ch cb (world st) of
        (err, w) \<Rightarrow>
          (err, st\<lparr>world := w, calls := calls st @ [EnableNotifications ch cb],
                   notifying :=
                     (if err = None
                      then (case cb of None \<Rightarrow> [] | Some f \<Rightarrow> [(ch, f)])
                           @ filter (\<lambda>(ch', f). ch' \<noteq> ch) (notifying st)
                      else notifying st)\<rparr>))"

definition call_WriteWithoutResponse ::
  "'w env \<Rightarrow> characteristic \<Rightarrow> byte list \<Rightarrow> 'w state \<Rightarrow> (string + int) \<times> 'w state" where
  "call_WriteWithoutResponse env ch buf st =
     (case ble_WriteWithoutResponse env ch buf (world st) of
        (r, w) \<Rightarrow> (r, st\<lparr>world := w, calls := calls st @ [WriteWithoutResponse ch buf]\<rparr>))"

text \<open>\<open>char.Read(buf)\<close> into a buffer of 512 bytes; the result is \<open>buf[:n]\<close>.\<close>

definition call_Read ::
  "'w env \<Rightarrow> characteristic \<Rightarrow> 'w state \<Rightarrow> (string + byte list) \<times> 'w state" where
  "call_Read env ch st =
     (case ble_Read env ch (world st) of
        (r, w) \<Rightarrow>
          (map_sum id (take 512) r, st\<lparr>world := w, calls := calls st @ [Read ch]\<rparr>))"

subsection \<open>\<open>getDeviceCharacteristic\<close> and \<open>startAsyncScan\<close>\<close>

text \<open>\<open>services[0]\<close> and \<open>chars[0]\<close> panic on an empty slice.\<close>

definition getDeviceCharacteristic ::
  "'w env \<Rightarrow> device \<Rightarrow> uuid \<Rightarrow> uuid \<Rightarrow> 'w state \<Rightarrow> characteristic res \<times> 'w state" where
  "getDeviceCharacteristic env device' serviceId characteristicId st =
     (case call_DiscoverServices env device' [serviceId] st of
        (Inl err, st1) \<Rightarrow> (Err err, st1)
      | (Inr services, st1) \<Rightarrow>
          (case services of
             [] \<Rightarrow> (Pan IndexOutOfRange, st1)
           | s0 # _ \<Rightarrow>
               (case call_DiscoverCharacteristics env s0 [characteristicId] st1 of
                  (Inl err, st2) \<Rightarrow> (Err err, st2)
                | (Inr chars, st2) \<Rightarrow>
                    (case chars of
                       [] \<Rightarrow> (Pan IndexOutOfRange, st2)
                     | c0 # _ \<Rightarrow> (Val c0, st2)))))"

text \<open>
  \<open>startAsyncScan\<close> stops the previous scan and starts \<open>adapter.Scan\<close> in a goroutine of
  its own; the callback and the goroutine that forwards the channel \<open>devices\<close> run once
  per advertisement (\<open>advertisement\<close> below). An error of \<open>adapter.Scan\<close> is logged.
  Here the scan starts at once, and a device put on the channel is forwarded at once:
  the steps of the goroutines are taken in one order, one after the other.
\<close>

definition startAsyncScan :: "'w env \<Rightarrow> DiscoverFilter list \<Rightarrow> 'w state \<Rightarrow> 'w state" where
  "startAsyncScan env filters st = call_Scan env filters (call_StopScan env st)"

text \<open>
  One advertisement seen by the adapter: without a running scan nothing is called; with
  one, the scan callback runs, and a device it puts on the channel is forwarded as a
  \<open>didDiscoverPeripheral\<close> message.
\<close>

definition advertisement :: "'w env \<Rightarrow> ScanResult \<Rightarrow> 'w state \<Rightarrow> 'w outcome" where
  "advertisement env device' st =
     (case scanning st of
        None \<Rightarrow> Running st
      | Some filters \<Rightarrow>
          (case scanCallback filters device' of
             None \<Rightarrow> Running st
           | Some d \<Rightarrow> push env ''didDiscoverPeripheral'' (DeviceP d) st))"

text \<open>One value change of a characteristic: the library calls the callback enabled on it.\<close>

definition valueChange :: "'w env \<Rightarrow> characteristic \<Rightarrow> byte list \<Rightarrow> 'w state \<Rightarrow> 'w outcome" where
  "valueChange env ch buf st =
     (case map_of (notifying st) ch of
        None \<Rightarrow> Running st
      | Some cb \<Rightarrow> notificationCallback env cb buf st)"


subsection \<open>The dispatcher (\<open>GetHandler\<close>)\<close>

text \<open>
  \<open>XParamsFromJson\<close> of \<open>types.go\<close>: \<open>json.Unmarshal\<close> into a fresh struct, the error
  returned as it is.
\<close>

definition DiscoverParamsFromJson :: "'w env \<Rightarrow> raw \<Rightarrow> string + DiscoverParams" where
  "DiscoverParamsFromJson env j = json_Unmarshal_DiscoverParams env j"

definition ConnectParamsFromJson :: "'w env \<Rightarrow> raw \<Rightarrow> string + ConnectParams" where
  "ConnectParamsFromJson env j = json_Unmarshal_ConnectParams env j"

definition NotificationsParamsFromJson :: "'w env \<Rightarrow> raw \<Rightarrow> string + NotificationsParams" where
  "NotificationsParamsFromJson env j = json_Unmarshal_NotificationsParams env j"

definition UpdateParamsFromJson :: "'w env \<Rightarrow> raw \<Rightarrow> string + UpdateParams" where
  "UpdateParamsFromJson env j = json_Unmarshal_UpdateParams env j"

definition ReadParamsFromJson :: "'w env \<Rightarrow> raw \<Rightarrow> string + ReadParams" where
  "ReadParamsFromJson env j = json_Unmarshal_ReadParams env j"

text \<open>\<open>DebugParams\<close> panics when the parameters do not decode into a map.\<close>

definition DebugParams :: "'w env \<Rightarrow> Msg \<Rightarrow> panic option" where
  "DebugParams env m =
     (case json_Unmarshal_map env (Params m) of
        Some err \<Rightarrow> Some (PanicErr err)
      | None \<Rightarrow> None)"

text \<open>Each case of the \<open>switch\<close> on \<open>msg.Method\<close>; a \<open>continue\<close> ends the case.\<close>

definition handle_getVersion :: "'w env \<Rightarrow> Msg \<Rightarrow> 'w state \<Rightarrow> 'w outcome" where
  "handle_getVersion env msg st =
     WsSend env (FResult (Respond msg (RMap [(''protocol'', ''1.3'')]))) st"

definition handle_discover :: "'w env \<Rightarrow> Msg \<Rightarrow> 'w state \<Rightarrow> 'w outcome" where
  "handle_discover env msg st =
     (case DiscoverParamsFromJson env (Params msg) of
        Inl err \<Rightarrow> WsSend env (FError (Error msg err)) st
      | Inr params \<Rightarrow>
          WsSend env (FResult (Respond msg RNull)) (startAsyncScan env (Filters params) st))"

text \<open>
  \<open>DEVICE, err = adapter.Connect(...)\<close> stores the pointer before the error is looked at.
  \<open>mac.Set(params.PeripheralId)\<close> belongs to the library; the address is kept as the
  string it is set from.
\<close>

definition handle_connect :: "'w env \<Rightarrow> Msg \<Rightarrow> 'w state \<Rightarrow> 'w outcome" where
  "handle_connect env msg st =
     (case ConnectParamsFromJson env (Params msg) of
        Inl err \<Rightarrow> WsSend env (FError (Error msg err)) st
      | Inr params \<Rightarrow>
          (case call_Connect env (PeripheralId params) (call_StopScan env st) of
             ((d, err), st1) \<Rightarrow>
               (let st2 = st1\<lparr>DEVICE := d\<rparr> in
                case err of
                  Some e \<Rightarrow> WsSend env (FError (Error msg e)) st2
                | None \<Rightarrow> WsSend env (FResult (Respond msg RNull)) st2)))"

text \<open>\<open>*DEVICE\<close> panics when \<open>DEVICE\<close> is \<open>nil\<close>, before \<open>getDeviceCharacteristic\<close> is entered.\<close>

definition handle_startNotifications :: "'w env \<Rightarrow> Msg \<Rightarrow> 'w state \<Rightarrow> 'w outcome" where
  "handle_startNotifications env msg st =
     (case NotificationsParamsFromJson env (Params msg) of
        Inl err \<Rightarrow> WsSend env (FError (Error msg err)) st
      | Inr params \<Rightarrow>
          (case DEVICE st of
             None \<Rightarrow> Panicked NilDereference st
           | Some d \<Rightarrow>
               (case getDeviceCharacteristic env d (ServiceId params) (CharacteristicId params) st of
                  (Pan p, st1) \<Rightarrow> Panicked p st1
                | (Err err, st1) \<Rightarrow> WsSend env (FError (Error msg err)) st1
                | (Val char, st1) \<Rightarrow>
                    (case call_EnableNotifications env char
                            (Some (NotificationCallback (CharacteristicId params)
                                     (CharacteristicId params))) st1 of
                       (Some err, st2) \<Rightarrow> WsSend env (FError (Error msg err)) st2
                     | (None, st2) \<Rightarrow> WsSend env (FResult (Respond msg RNull)) st2))))"

text \<open>
  \<open>write\<close>: an encoding other than \<open>base64\<close> is logged and the case ends. The method
  \<open>DEVICE.DiscoverServices\<close> reads the device behind the pointer.
\<close>

definition handle_write :: "'w env \<Rightarrow> Msg \<Rightarrow> 'w state \<Rightarrow> 'w outcome" where
  "handle_write env msg st =
     (case UpdateParamsFromJson env (Params msg) of
        Inl err \<Rightarrow> WsSend env (FError (Error msg err)) st
      | Inr params \<Rightarrow>
          if Encoding params \<noteq> ''base64'' then Running st
          else
          (case DEVICE st of
             None \<Rightarrow> Panicked NilDereference st
           | Some d \<Rightarrow>
               (case call_DiscoverServices env d [ServiceId params] st of
                  (Inl err, st1) \<Rightarrow> WsSend env (FError (Error msg err)) st1
                | (Inr services, st1) \<Rightarrow>
                    (case services of
                       [] \<Rightarrow> Panicked IndexOutOfRange st1
                     | s0 # _ \<Rightarrow>
                         (case call_DiscoverCharacteristics env s0 [CharacteristicId params] st1 of
                            (Inl err, st2) \<Rightarrow> WsSend env (FError (Error msg err)) st2
                          | (Inr chars, st2) \<Rightarrow>
                              (case chars of
                                 [] \<Rightarrow> Panicked IndexOutOfRange st2
                               | char # _ \<Rightarrow>
                                   (case base64_DecodeString env (Message params) of
                                      Inl err \<Rightarrow> WsSend env (FError (Error msg err)) st2
                                    | Inr buf \<Rightarrow>
                                        (case call_WriteWithoutResponse env char buf st2 of
                                           (Inl err, st3) \<Rightarrow>
                                             WsSend env (FError (Error msg err)) st3
                                         | (Inr n, st3) \<Rightarrow>
                                             WsSend env (FResult (Respond msg (RInt n))) st3))))))))"

definition handle_read :: "'w env \<Rightarrow> Msg \<Rightarrow> 'w state \<Rightarrow> 'w outcome" where
  "handle_read env msg st =
     (case ReadParamsFromJson env (Params msg) of
        Inl err \<Rightarrow> WsSend env (FError (Error msg err)) st
      | Inr params \<Rightarrow>
          (case DEVICE st of
             None \<Rightarrow> Panicked NilDereference st
           | Some d \<Rightarrow>
               (case getDeviceCharacteristic env d (ServiceId params) (CharacteristicId params) st of
                  (Pan p, st1) \<Rightarrow> Panicked p st1
                | (Err err, st1) \<Rightarrow> WsSend env (FError (Error msg err)) st1
                | (Val char, st1) \<Rightarrow>
                    (case (if StartNotifications params
                           then call_EnableNotifications env char
                                  (Some (NotificationCallback (CharacteristicId params)
                                           (CharacteristicId params))) st1
                           else (None, st1)) of
                       (Some err, st2) \<Rightarrow> WsSend env (FError (Error msg err)) st2
                     | (None, st2) \<Rightarrow>
                         (case call_Read env char st2 of
                            (Inl err, st3) \<Rightarrow> WsSend env (FError (Error msg err)) st3
                          | (Inr buf, st3) \<Rightarrow>
                              WsSend env (FResult (RespondBytes msg buf)) st3)))))"

definition handle_stopNotifications :: "'w env \<Rightarrow> Msg \<Rightarrow> 'w state \<Rightarrow> 'w outcome" where
  "handle_stopNotifications env msg st =
     (case NotificationsParamsFromJson env (Params msg) of
        Inl err \<Rightarrow> WsSend env (FError (Error msg err)) st
      | Inr params \<Rightarrow>
          (case DEVICE st of
             None \<Rightarrow> Panicked NilDereference st
           | Some d \<Rightarrow>
               (case getDeviceCharacteristic env d (ServiceId params) (CharacteristicId params) st of
                  (Pan p, st1) \<Rightarrow> Panicked p st1
                | (Err err, st1) \<Rightarrow> WsSend env (FError (Error msg err)) st1
                | (Val char, st1) \<Rightarrow>
                    (case call_EnableNotifications env char None st1 of
                       (Some err, st2) \<Rightarrow> WsSend env (FError (Error msg err)) st2
                     | (None, st2) \<Rightarrow> WsSend env (FResult (Respond msg RNull)) st2))))"

text \<open>
  The \<open>default\<close> case logs the command; the argument \<open>msg.DebugParams()\<close> of the log call
  is evaluated first.
\<close>

definition handle_default :: "'w env \<Rightarrow> Msg \<Rightarrow> 'w state \<Rightarrow> 'w outcome" where
  "handle_default env msg st =
     (case DebugParams env msg of
        Some p \<Rightarrow> Panicked p st
      | None \<Rightarrow> Running st)"

definition handle :: "'w env \<Rightarrow> Msg \<Rightarrow> 'w state \<Rightarrow> 'w outcome" where
  "handle env msg st =
     (if Method msg = ''getVersion'' then handle_getVersion env msg st
      else if Method msg = ''discover'' then handle_discover env msg st
      else if Method msg = ''connect'' then handle_connect env msg st
      else if Method msg = ''startNotifications'' then handle_startNotifications env msg st
      else if Method msg = ''write'' then handle_write env msg st
      else if Method msg = ''read'' then handle_read env msg st
      else if Method msg = ''stopNotifications'' then handle_stopNotifications env msg st
      else handle_default env msg st)"

text \<open>\<open>for msg := range msgs\<close>: a panic ends the loop and the handler.\<close>

fun dispatch :: "'w env \<Rightarrow> Msg list \<Rightarrow> 'w state \<Rightarrow> 'w outcome" where
  "dispatch env [] st = Running st"
| "dispatch env (msg # msgs) st =
     (case handle env msg st of
        Panicked p st' \<Rightarrow> Panicked p st'
      | Running st' \<Rightarrow> dispatch env msgs st')"

text \<open>
  The handler of one connection: \<open>DEVICE\<close> starts as \<open>nil\<close>, \<open>WsReadLoop\<close> fills the
  channel, then the messages are dispatched in order.
\<close>

datatype 'w session = Disconnected "'w state" | Crashed panic "'w state" | Deadlocked

definition GetHandler :: "'w env \<Rightarrow> conn \<Rightarrow> 'w state \<Rightarrow> 'w session" where
  "GetHandler env c st =
     (let st0 = st\<lparr>DEVICE := None\<rparr> in
      case WsReadLoop env c of
        LoopPanic p \<Rightarrow> Crashed p st0
      | Blocked \<Rightarrow> Deadlocked
      | Closed msgs \<Rightarrow>
          (case dispatch env msgs st0 of
             Running st' \<Rightarrow> Disconnected st'
           | Panicked p st' \<Rightarrow> Crashed p st'))"


subsection \<open>A test double: a table of JSON texts and a device that echoes the last write\<close>

text \<open>
  The general theorems below hold for every environment. The concrete runs use this
  one: its JSON functions know the texts listed here (each entry is what
  \<open>encoding/json\<close> gives on that text), its device accepts one address and reads back
  the last value written.
\<close>

definition uuidS :: uuid where "uuidS = 1"
definition uuidC :: uuid where "uuidC = 2"

definition params_SC :: raw where
  "params_SC = ''{\"serviceId\":\"00000000-0000-0000-0000-000000000001\",\"characteristicId\":\"00000000-0000-0000-0000-000000000002\"}''"

definition params_write_hex :: raw where
  "params_write_hex = ''{\"serviceId\":\"00000000-0000-0000-0000-000000000001\",\"characteristicId\":\"00000000-0000-0000-0000-000000000002\",\"message\":\"66\",\"encoding\":\"hex\",\"withResponse\":false}''"

definition params_write_base64 :: raw where
  "params_write_base64 = ''{\"serviceId\":\"00000000-0000-0000-0000-000000000001\",\"characteristicId\":\"00000000-0000-0000-0000-000000000002\",\"message\":\"Zg==\",\"encoding\":\"base64\",\"withResponse\":false}''"

definition params_connect :: raw where
  "params_connect = ''{\"peripheralId\":\"AA:BB:CC:DD:EE:FF\"}''"

definition params_discover_Foo :: raw where
  "params_discover_Foo = ''{\"filters\":[{\"name\":\"Foo\"}]}''"

definition params_empty_object :: raw where
  "params_empty_object = ''{}''"

definition frame_foo_no_params :: string where
  "frame_foo_no_params = ''{\"id\":1,\"jsonrpc\":\"2.0\",\"method\":\"foo\"}''"

definition frame_getVersion :: string where
  "frame_getVersion = ''{\"id\":2,\"jsonrpc\":\"2.0\",\"method\":\"getVersion\",\"params\":{}}''"

definition frame_reply :: string where
  "frame_reply = ''{\"id\":7,\"jsonrpc\":\"2.0\",\"result\":null}''"


definition push_SC :: raw where
  "push_SC = ''{\"serviceId\":\"00000000-0000-0000-0000-000000000001\",\"characteristicId\":\"00000000-0000-0000-0000-000000000002\",\"message\":\"Zg==\",\"encoding\":\"base64\",\"withResponse\":false}''"

definition push_CC :: raw where
  "push_CC = ''{\"serviceId\":\"00000000-0000-0000-0000-000000000002\",\"characteristicId\":\"00000000-0000-0000-0000-000000000002\",\"message\":\"Zg==\",\"encoding\":\"base64\",\"withResponse\":false}''"

definition push_Foo :: raw where
  "push_Foo = ''{\"peripheralId\":\"AA:BB:CC:DD:EE:FF\",\"name\":\"Foo\",\"rssi\":0}''"

definition fake_Unmarshal_Msg :: "string \<Rightarrow> Msg \<Rightarrow> string + Msg" where
  "fake_Unmarshal_Msg frame msg =
     (if frame = frame_foo_no_params
      then Inr (msg\<lparr>Id := 1, Jsonrpc := ''2.0'', Method := ''foo''\<rparr>)
      else if frame = frame_getVersion
      then Inr (msg\<lparr>Id := 2, Jsonrpc := ''2.0'', Method := ''getVersion'',
                     Params := params_empty_object\<rparr>)
      else if frame = frame_reply
      then Inr (msg\<lparr>Id := 7, Jsonrpc := ''2.0''\<rparr>)
      else Inl ''unexpected end of JSON input'')"

definition fake_Unmarshal_NotificationsParams :: "raw \<Rightarrow> string + NotificationsParams" where
  "fake_Unmarshal_NotificationsParams j =
     (if j = params_SC then Inr \<lparr>ServiceId = uuidS, CharacteristicId = uuidC\<rparr>
      else Inl ''unexpected end of JSON input'')"

definition fake_Unmarshal_UpdateParams :: "raw \<Rightarrow> string + UpdateParams" where
  "fake_Unmarshal_UpdateParams j =
     (if j = params_write_hex
      then Inr \<lparr>ServiceId = uuidS, CharacteristicId = uuidC, Message = ''66'',
                Encoding = ''hex'', WithResponse = False\<rparr>
      else if j = params_write_base64
      then Inr \<lparr>ServiceId = uuidS, CharacteristicId = uuidC, Message = ''Zg=='',
                Encoding = ''base64'', WithResponse = False\<rparr>
      else Inl ''unexpected end of JSON input'')"

definition fake_Unmarshal_ReadParams :: "raw \<Rightarrow> string + ReadParams" where
  "fake_Unmarshal_ReadParams j =
     (if j = params_SC
      then Inr \<lparr>ServiceId = uuidS, CharacteristicId = uuidC, StartNotifications = False\<rparr>
      else Inl ''unexpected end of JSON input'')"

definition fake_Unmarshal_ConnectParams :: "raw \<Rightarrow> string + ConnectParams" where
  "fake_Unmarshal_ConnectParams j =
     (if j = params_connect then Inr \<lparr>PeripheralId = ''AA:BB:CC:DD:EE:FF''\<rparr>
      else Inl ''unexpected end of JSON input'')"

definition fake_Unmarshal_DiscoverParams :: "raw \<Rightarrow> string + DiscoverParams" where
  "fake_Unmarshal_DiscoverParams j =
     (if j = params_discover_Foo
      then Inr \<lparr>Filters = [\<lparr>Name = ''Foo'', NamePrefix = [], Services = []\<rparr>]\<rparr>
      else Inl ''unexpected end of JSON input'')"

definition fake_Unmarshal_map :: "raw \<Rightarrow> string option" where
  "fake_Unmarshal_map j =
     (if j \<in> {params_empty_object, params_SC, params_write_hex, params_write_base64,
               params_connect, params_discover_Foo}
      then None
      else Some ''unexpected end of JSON input'')"

definition fake_Marshal :: "params_value \<Rightarrow> string + raw" where
  "fake_Marshal v =
     (if v = UpdateP \<lparr>ServiceId = uuidS, CharacteristicId = uuidC, Message = ''Zg=='',
                      Encoding = ''base64'', WithResponse = False\<rparr>
      then Inr push_SC
      else if v = UpdateP \<lparr>ServiceId = uuidC, CharacteristicId = uuidC, Message = ''Zg=='',
                           Encoding = ''base64'', WithResponse = False\<rparr>
      then Inr push_CC
      else if v = DeviceP \<lparr>Device_PeripheralId = ''AA:BB:CC:DD:EE:FF'', Device_Name = ''Foo'',
                           Device_RSSI = 0\<rparr>
      then Inr push_Foo
      else Inl ''json: unsupported value'')"

definition fake_DecodeString :: "string \<Rightarrow> string + byte list" where
  "fake_DecodeString s =
     (if s = ''Zg=='' then Inr [0x66] else Inl ''illegal base64 data at input byte 0'')"

definition fake_env :: "byte list env" where
  "fake_env =
     \<lparr>json_Unmarshal_Msg = fake_Unmarshal_Msg,
      json_Unmarshal_DiscoverParams = fake_Unmarshal_DiscoverParams,
      json_Unmarshal_ConnectParams = fake_Unmarshal_ConnectParams,
      json_Unmarshal_NotificationsParams = fake_Unmarshal_NotificationsParams,
      json_Unmarshal_UpdateParams = fake_Unmarshal_UpdateParams,
      json_Unmarshal_ReadParams = fake_Unmarshal_ReadParams,
      json_Unmarshal_map = fake_Unmarshal_map,
      json_Marshal = fake_Marshal,
      json_Marshal_frame = (\<lambda>data. None),
      base64_DecodeString = fake_DecodeString,
      ble_StopScan = (\<lambda>w. w),
      ble_Scan = (\<lambda>w. (None, w)),
      ble_Connect = (\<lambda>mac w.
        if mac = ''AA:BB:CC:DD:EE:FF'' then ((Some 1, None), w)
        else ((None, Some ''device not found''), w)),
      ble_DiscoverServices = (\<lambda>d ids w. (Inr [10], w)),
      ble_DiscoverCharacteristics = (\<lambda>s ids w. (Inr [20], w)),
      ble_EnableNotifications = (\<lambda>ch cb w. (None, w)),
      ble_WriteWithoutResponse = (\<lambda>ch buf w. (Inr (int (length buf)), buf)),
      ble_Read = (\<lambda>ch w. (Inr w, w))\<rparr>"

text \<open>A fresh session: no device, no scan, nothing sent.\<close>

definition init :: "byte list state" where
  "init = \<lparr>DEVICE = None, MsgID = 0, sent = [], calls = [], world = [],
           scanning = None, notifying = []\<rparr>"

definition request :: "64 word \<Rightarrow> string \<Rightarrow> raw \<Rightarrow> Msg" where
  "request i method params = \<lparr>Id = i, Jsonrpc = ''2.0'', Method = method, Params = params\<rparr>"


text \<open>Advertisements and filters for the concrete runs.\<close>

definition adv_Foo :: ScanResult where
  "adv_Foo = \<lparr>Address = ''AA:BB:CC:DD:EE:FF'', RSSI = 0, LocalName = ''Foo'',
              ServiceUUIDs = [uuidS]\<rparr>"

definition adv_unnamed :: ScanResult where
  "adv_unnamed = \<lparr>Address = ''11:22:33:44:55:66'', RSSI = 0, LocalName = [],
                  ServiceUUIDs = [uuidS]\<rparr>"

definition filter_Foo :: DiscoverFilter where
  "filter_Foo = \<lparr>Name = ''Foo'', NamePrefix = [], Services = []\<rparr>"

definition filter_S :: DiscoverFilter where
  "filter_S = \<lparr>Name = [], NamePrefix = [], Services = [uuidS]\<rparr>"

definition filter_C :: DiscoverFilter where
  "filter_C = \<lparr>Name = [], NamePrefix = [], Services = [uuidC]\<rparr>"

definition scanning_Foo :: "byte list state" where
  "scanning_Foo = init\<lparr>scanning := Some [filter_Foo]\<rparr>"




text \<open>The session after a successful \<open>connect\<close>, and after \<open>startNotifications\<close> on it.\<close>

definition connected :: "byte list state" where
  "connected = final (handle fake_env (request 1 ''connect'' params_connect) init)"

definition subscribed :: "byte list state" where
  "subscribed = final (handle fake_env (request 2 ''startNotifications'' params_SC) connected)"

text \<open>
  What the dispatcher may send while it handles \<open>msg\<close>: at most one frame, a result or
  an error that carries the id of \<open>msg\<close>.
\<close>

definition reply_to :: "Msg \<Rightarrow> frame \<Rightarrow> bool" where
  "reply_to msg f =
     (case f of FResult r \<Rightarrow> Result_Id r = Id msg
              | FError e \<Rightarrow> Error_Id e = Id msg
              | FMsg m \<Rightarrow> False)"

definition replies :: "Msg \<Rightarrow> 'w state \<Rightarrow> 'w outcome \<Rightarrow> bool" where
  "replies msg st out \<longleftrightarrow>
     (\<exists>new. sent (final out) = sent st @ new \<and> length new \<le> 1 \<and> list_all (reply_to msg) new)"

section \<open>Properties\<close>

text \<open>The defining equations, for running the model on concrete inputs.\<close>

lemmas fake_simps =
  fake_env_def fake_Unmarshal_Msg_def fake_Unmarshal_NotificationsParams_def
  fake_Unmarshal_UpdateParams_def fake_Unmarshal_ReadParams_def
  fake_Unmarshal_ConnectParams_def fake_Unmarshal_DiscoverParams_def
  fake_Unmarshal_map_def fake_Marshal_def fake_DecodeString_def
  params_SC_def params_write_hex_def params_write_base64_def params_connect_def
  params_discover_Foo_def params_empty_object_def init_def request_def

lemmas handler_simps =
  handle_def handle_getVersion_def handle_discover_def handle_connect_def
  handle_startNotifications_def handle_write_def handle_read_def
  handle_stopNotifications_def handle_default_def DebugParams_def
  DiscoverParamsFromJson_def ConnectParamsFromJson_def NotificationsParamsFromJson_def
  UpdateParamsFromJson_def ReadParamsFromJson_def
  getDeviceCharacteristic_def startAsyncScan_def
  call_StopScan_def call_Scan_def call_Connect_def call_DiscoverServices_def
  call_DiscoverCharacteristics_def call_EnableNotifications_def
  call_WriteWithoutResponse_def call_Read_def
  WsSend_def NewMsg_def push_def Respond_def RespondBytes_def Error_def

subsection \<open>The message codec\<close>

lemma EncodeToString_f: "EncodeToString [0x66] = ''Zg==''"
  by (simp add: enc_def encodeStd_def)

lemma EncodeToString_length: "length (EncodeToString buf) = 4 * ((length buf + 2) div 3)"
proof (induction buf rule: EncodeToString.induct)
  case (4 a b c rest)
  have "(5 + length rest) div 3 = Suc ((length rest + 2) div 3)" by arith
  with 4 show ?case by (simp add: Let_def)
qed (simp_all add: Let_def)

lemma replies_WsSend_Result:
  "sent st' = sent st \<Longrightarrow> replies msg st (WsSend env (FResult (Respond msg v)) st')"
  by (simp add: replies_def WsSend_def reply_to_def Respond_def split: option.splits)

lemma replies_WsSend_Bytes:
  "sent st' = sent st \<Longrightarrow> replies msg st (WsSend env (FResult (RespondBytes msg v)) st')"
  by (simp add: replies_def WsSend_def reply_to_def RespondBytes_def split: option.splits)

lemma replies_WsSend_Error:
  "sent st' = sent st \<Longrightarrow> replies msg st (WsSend env (FError (Error msg e)) st')"
  by (simp add: replies_def WsSend_def reply_to_def Error_def split: option.splits)

lemma replies_silent:
  "sent st' = sent st \<Longrightarrow> replies msg st (Running st')"
  "sent st' = sent st \<Longrightarrow> replies msg st (Panicked p st')"
  by (simp_all add: replies_def)

lemmas replies_intros =
  replies_WsSend_Result replies_WsSend_Bytes replies_WsSend_Error replies_silent

lemma call_sent:
  "sent (call_StopScan env st) = sent st"
  "sent (call_Scan env fs st) = sent st"
  "sent (snd (call_Connect env mac st)) = sent st"
  "sent (snd (call_DiscoverServices env d ids st)) = sent st"
  "sent (snd (call_DiscoverCharacteristics env s ids st)) = sent st"
  "sent (snd (call_EnableNotifications env ch cb st)) = sent st"
  "sent (snd (call_WriteWithoutResponse env ch buf st)) = sent st"
  "sent (snd (call_Read env ch st)) = sent st"
  by (simp_all add: call_StopScan_def call_Scan_def call_Connect_def call_DiscoverServices_def
        call_DiscoverCharacteristics_def call_EnableNotifications_def
        call_WriteWithoutResponse_def call_Read_def split: prod.splits)

lemma call_sent':
  "call_Connect env mac st = (r1, st1) \<Longrightarrow> sent st1 = sent st"
  "call_DiscoverServices env d ids st = (r2, st2) \<Longrightarrow> sent st2 = sent st"
  "call_DiscoverCharacteristics env s ids st = (r3, st3) \<Longrightarrow> sent st3 = sent st"
  "call_EnableNotifications env ch cb st = (r4, st4) \<Longrightarrow> sent st4 = sent st"
  "call_WriteWithoutResponse env ch buf st = (r5, st5) \<Longrightarrow> sent st5 = sent st"
  "call_Read env ch st = (r6, st6) \<Longrightarrow> sent st6 = sent st"
  using call_sent(3)[of env mac st] call_sent(4)[of env d ids st]
    call_sent(5)[of env s ids st] call_sent(6)[of env ch cb st]
    call_sent(7)[of env ch buf st] call_sent(8)[of env ch st]
  by simp_all

lemma getDeviceCharacteristic_sent:
  "getDeviceCharacteristic env d sid cid st = (r, st') \<Longrightarrow> sent st' = sent st"
  by (auto simp: getDeviceCharacteristic_def split: prod.splits sum.splits list.splits
        dest!: call_sent'(2,3))

lemma replies_getVersion: "replies msg st (handle_getVersion env msg st)"
  by (simp add: handle_getVersion_def replies_intros)

lemma replies_discover: "replies msg st (handle_discover env msg st)"
  by (simp add: handle_discover_def startAsyncScan_def replies_intros call_sent
        split: sum.splits)

lemma replies_connect: "replies msg st (handle_connect env msg st)"
  by (auto simp: handle_connect_def Let_def call_sent split: sum.splits prod.splits option.splits
        intro!: replies_intros dest!: call_sent'(1))

lemma replies_startNotifications: "replies msg st (handle_startNotifications env msg st)"
  by (auto simp: handle_startNotifications_def split: sum.splits prod.splits option.splits res.splits
        intro!: replies_intros dest!: call_sent'(4) getDeviceCharacteristic_sent)

lemma replies_stopNotifications: "replies msg st (handle_stopNotifications env msg st)"
  by (auto simp: handle_stopNotifications_def split: sum.splits prod.splits option.splits res.splits
        intro!: replies_intros dest!: call_sent'(4) getDeviceCharacteristic_sent)

lemma replies_read: "replies msg st (handle_read env msg st)"
  by (auto simp: handle_read_def split: sum.splits prod.splits option.splits res.splits if_splits
        intro!: replies_intros dest!: call_sent'(4,6) getDeviceCharacteristic_sent)

lemma replies_write: "replies msg st (handle_write env msg st)"
  by (auto simp: handle_write_def split: sum.splits prod.splits option.splits list.splits
        intro!: replies_intros dest!: call_sent'(2,3,5))

lemma replies_default: "replies msg st (handle_default env msg st)"
  by (simp add: handle_default_def replies_intros split: option.splits)

lemma handle_replies: "replies msg st (handle env msg st)"
  by (simp add: handle_def replies_getVersion replies_discover replies_connect
        replies_startNotifications replies_stopNotifications replies_read replies_write
        replies_default)

text \<open>
  C7. Every reply built for a request \<open>m\<close> (\<open>Respond\<close>, \<open>RespondBytes\<close>, \<open>Error\<close>) carries
  the id of \<open>m\<close>; \<open>RespondBytes\<close> also sets the encoding to \<open>base64\<close> and the result to the
  base64 text of the buffer. In the dispatcher: whatever it sends while handling \<open>m\<close> is
  at most one frame, a result or an error with the id of \<open>m\<close>.
\<close>

theorem reply_ids:
  "Result_Id (Respond m v) = Id m \<and>
   Result_Id (RespondBytes m buf) = Id m \<and>
   Error_Id (Error m reason) = Id m \<and>
   Result_Encoding (RespondBytes m buf) = ''base64'' \<and>
   Result_Result (RespondBytes m buf) = RString (EncodeToString buf) \<and>
   replies m st (handle env m st)"
  by (simp add: Respond_def RespondBytes_def Error_def handle_replies)

subsection \<open>Filter matching\<close>

text \<open>
  C10. For an advertisement with a local name, \<open>matchDevice\<close> is true exactly when every
  filter entry of the list matches it (a conjunction over the entries); the empty list
  matches, so a scan without filters reports every advertisement that has a local name.
\<close>

theorem matchDevice_all_filters:
  assumes "LocalName device \<noteq> []"
  shows "(matchDevice device filters \<longleftrightarrow> (\<forall>f \<in> set filters. filter_matches device f)) \<and>
         matchDevice device [] \<and>
         scanCallback [] device =
           Some \<lparr>Device_PeripheralId = Address device, Device_Name = LocalName device,
                 Device_RSSI = RSSI device\<rparr>"
  using assms by (simp add: matchDevice_iff list_all_iff scanCallback_def)

theorem matchDevice_all_filters_witness:
  "LocalName adv_Foo \<noteq> [] \<and>
   matchDevice adv_Foo [filter_Foo, filter_S] \<and>
   filter_matches adv_Foo filter_Foo \<and> filter_matches adv_Foo filter_S \<and>
   \<not> matchDevice adv_Foo [filter_Foo, filter_C] \<and> \<not> filter_matches adv_Foo filter_C \<and>
   scanCallback [] adv_Foo =
     Some \<lparr>Device_PeripheralId = ''AA:BB:CC:DD:EE:FF'', Device_Name = ''Foo'', Device_RSSI = 0\<rparr>"
  using matchDevice_all_filters [of adv_Foo "[filter_Foo, filter_S]"]
        matchDevice_all_filters [of adv_Foo "[filter_Foo, filter_C]"]
  by (simp add: adv_Foo_def filter_Foo_def filter_S_def filter_C_def filter_matches_def
        HasServiceUUID_def scanCallback_def uuidS_def uuidC_def)


subsection \<open>Discovery\<close>

text \<open>
  C6. An advertisement with an empty local name is dropped before the filters are looked
  at and is never sent as \<open>didDiscoverPeripheral\<close>. With a local name and a filter list
  of one entry, the scan callback emits the device exactly when the entry matches: its
  name is empty or equal to the local name, and every service of the entry is advertised;
  the device emitted is then sent as a \<open>didDiscoverPeripheral\<close> message.
\<close>

theorem discover_single_filter:
  "(LocalName device = [] \<longrightarrow>
      scanCallback filters device = None \<and> advertisement env device st = Running st) \<and>
   (LocalName device \<noteq> [] \<longrightarrow>
      scanCallback [f] device =
        (if filter_matches device f
         then Some \<lparr>Device_PeripheralId = Address device, Device_Name = LocalName device,
                    Device_RSSI = RSSI device\<rparr>
         else None) \<and>
      (scanning st = Some [f] \<longrightarrow>
         advertisement env device st =
           (if filter_matches device f
            then push env ''didDiscoverPeripheral''
                   (DeviceP \<lparr>Device_PeripheralId = Address device,
                             Device_Name = LocalName device, Device_RSSI = RSSI device\<rparr>) st
            else Running st)))"
  by (simp add: scanCallback_def advertisement_def matchDevice_iff split: option.splits)

theorem discover_single_filter_witness:
  "LocalName adv_unnamed = [] \<and> scanning scanning_Foo = Some [filter_Foo] \<and>
   advertisement fake_env adv_unnamed scanning_Foo = Running scanning_Foo \<and>
   LocalName adv_Foo \<noteq> [] \<and> filter_matches adv_Foo filter_Foo \<and>
   sent (final (advertisement fake_env adv_Foo scanning_Foo)) =
     [FMsg \<lparr>Id = 1, Jsonrpc = ''2.0'', Method = ''didDiscoverPeripheral'', Params = push_Foo\<rparr>] \<and>
   \<not> filter_matches adv_Foo filter_C \<and>
   advertisement fake_env adv_Foo (init\<lparr>scanning := Some [filter_C]\<rparr>) =
     Running (init\<lparr>scanning := Some [filter_C]\<rparr>)"
  using discover_single_filter [where device = adv_unnamed and filters = "[filter_Foo]"
          and st = scanning_Foo and env = fake_env and f = filter_Foo]
        discover_single_filter [where device = adv_Foo and filters = "[filter_Foo]"
          and st = scanning_Foo and env = fake_env and f = filter_Foo]
        discover_single_filter [where device = adv_Foo and filters = "[filter_C]"
          and st = "init\<lparr>scanning := Some [filter_C]\<rparr>" and env = fake_env and f = filter_C]
  by (simp add: adv_unnamed_def adv_Foo_def filter_Foo_def filter_C_def scanning_Foo_def
        init_def filter_matches_def push_def NewMsg_def WsSend_def fake_env_def
        fake_Marshal_def uuidS_def uuidC_def)

subsection \<open>The transport loop\<close>








subsection \<open>Connecting\<close>








lemma connected_eq:
  "connected =
     init\<lparr>DEVICE := Some 1,
          sent := [FResult \<lparr>Result_Id = 1, Result_Jsonrpc = ''2.0'', Result_Result = RNull,
                             Result_Encoding = []\<rparr>],
          calls := [StopScan, Connect ''AA:BB:CC:DD:EE:FF'']\<rparr>"
  by (simp add: connected_def handler_simps fake_simps)

lemma subscribed_eq:
  "subscribed =
     connected\<lparr>sent := sent connected @
                   [FResult \<lparr>Result_Id = 2, Result_Jsonrpc = ''2.0'', Result_Result = RNull,
                              Result_Encoding = []\<rparr>],
               calls := calls connected @
                   [DiscoverServices 1 [uuidS], DiscoverCharacteristics 10 [uuidC],
                    EnableNotifications 20 (Some (NotificationCallback uuidC uuidC))],
               notifying := [(20, NotificationCallback uuidC uuidC)]\<rparr>"
  by (simp add: subscribed_def connected_eq handler_simps fake_simps)

subsection \<open>Requests without a device\<close>

lemma no_device_nil_dereference:
  assumes "DEVICE st = None"
  shows "NotificationsParamsFromJson env (Params msg) = Inr np \<Longrightarrow>
           handle_startNotifications env msg st = Panicked NilDereference st"
    and "NotificationsParamsFromJson env (Params msg) = Inr np \<Longrightarrow>
           handle_stopNotifications env msg st = Panicked NilDereference st"
    and "ReadParamsFromJson env (Params msg) = Inr rp \<Longrightarrow>
           handle_read env msg st = Panicked NilDereference st"
    and "UpdateParamsFromJson env (Params msg) = Inr up \<Longrightarrow> Encoding up = ''base64'' \<Longrightarrow>
           handle_write env msg st = Panicked NilDereference st"
  using assms
  by (simp_all add: handle_startNotifications_def handle_stopNotifications_def
        handle_read_def handle_write_def)

text \<open>
  C1. What the code does in a session that never connected (\<open>DEVICE\<close> is \<open>nil\<close>): each of
  \<open>startNotifications\<close>, \<open>stopNotifications\<close>, \<open>read\<close> and \<open>write\<close> (with well-formed
  parameters, base64 for \<open>write\<close>) dereferences the pointer and panics. No frame is sent,
  no error reply either, and a request that follows is not handled.
\<close>

theorem no_device_requests_panic:
  "DEVICE init = None \<and>
   handle fake_env (request 1 ''startNotifications'' params_SC) init =
     Panicked NilDereference init \<and>
   handle fake_env (request 1 ''stopNotifications'' params_SC) init =
     Panicked NilDereference init \<and>
   handle fake_env (request 1 ''read'' params_SC) init = Panicked NilDereference init \<and>
   handle fake_env (request 1 ''write'' params_write_base64) init =
     Panicked NilDereference init \<and>
   dispatch fake_env [request 1 ''read'' params_SC, request 2 ''getVersion'' params_empty_object]
     init = Panicked NilDereference init \<and>
   sent init = []"
  by (simp add: handler_simps fake_simps)

subsection \<open>The notification relay\<close>

text \<open>
  C2. What the code does for a subscription made with service \<open>uuidS\<close> and characteristic
  \<open>uuidC\<close>: the handler builds the callback from the characteristic id twice, so the
  \<open>characteristicDidChange\<close> message of a value change carries \<open>uuidC\<close> in its
  \<open>serviceId\<close> field, not \<open>uuidS\<close>. Method, characteristic id, base64 message and
  encoding are as the claim says.
\<close>

theorem notification_push_serviceId:
  "json_Unmarshal_NotificationsParams fake_env params_SC =
     Inr \<lparr>ServiceId = uuidS, CharacteristicId = uuidC\<rparr> \<and>
   notifying subscribed = [(20, NotificationCallback uuidC uuidC)] \<and>
   sent (final (valueChange fake_env 20 [0x66] subscribed)) =
     sent subscribed @
       [FMsg \<lparr>Id = 1, Jsonrpc = ''2.0'', Method = ''characteristicDidChange'',
               Params = push_CC\<rparr>] \<and>
   json_Marshal fake_env
     (UpdateP \<lparr>ServiceId = uuidC, CharacteristicId = uuidC, Message = ''Zg=='',
               Encoding = ''base64'', WithResponse = False\<rparr>) = Inr push_CC \<and>
   uuidC \<noteq> uuidS"
  by (simp add: subscribed_eq connected_eq valueChange_def push_def NewMsg_def WsSend_def
        enc_def encodeStd_def fake_simps uuidS_def uuidC_def)

subsection \<open>Writes with another encoding\<close>

lemma write_other_encoding:
  "UpdateParamsFromJson env (Params msg) = Inr params \<Longrightarrow> Encoding params \<noteq> ''base64'' \<Longrightarrow>
   handle_write env msg st = Running st"
  by (simp add: handle_write_def)

text \<open>
  C3. What the code does for a \<open>write\<close> whose encoding is \<open>hex\<close>: the request leaves the
  session as it was. No call is made on the device and nothing panics, and no frame is
  sent either: the request gets no error reply. The same write with \<open>base64\<close> is answered
  with the number of bytes written.
\<close>

theorem write_hex_no_reply:
  "json_Unmarshal_UpdateParams fake_env params_write_hex =
     Inr \<lparr>ServiceId = uuidS, CharacteristicId = uuidC, Message = ''66'', Encoding = ''hex'',
          WithResponse = False\<rparr> \<and>
   handle fake_env (request 3 ''write'' params_write_hex) connected = Running connected \<and>
   sent (final (handle fake_env (request 3 ''write'' params_write_base64) connected)) =
     sent connected @
       [FResult \<lparr>Result_Id = 3, Result_Jsonrpc = ''2.0'', Result_Result = RInt 1,
                  Result_Encoding = []\<rparr>]"
  by (simp add: connected_eq handler_simps fake_simps)

subsection \<open>Frames of 512 bytes and more\<close>

lemma wsRead_oversize:
  "512 \<le> length frame \<Longrightarrow> wsRead_loop env msg (frame # rest) e = ReadPanic (PanicStr ''too big'')"
  by (simp add: Let_def)


subsection \<open>Unknown methods\<close>

lemma unknown_method_sends_nothing:
  assumes "Method msg \<notin> {''getVersion'', ''discover'', ''connect'', ''startNotifications'',
             ''stopNotifications'', ''write'', ''read''}"
  shows "final (handle env msg st) = st"
    and "json_Unmarshal_map env (Params msg) = None \<Longrightarrow> handle env msg st = Running st"
    and "json_Unmarshal_map env (Params msg) = Some err \<Longrightarrow>
           handle env msg st = Panicked (PanicErr err) st"
  using assms
  by (simp_all add: handle_def handle_default_def DebugParams_def split: option.splits)

text \<open>
  C5. What the code does for a request with the unknown method \<open>foo\<close> and no parameters:
  nothing is sent, and \<open>DebugParams\<close> panics inside the log call, so the request that
  follows is not handled. With parameters that decode into a map the request is logged
  and the session goes on.
\<close>

theorem unknown_method_panics:
  "json_Unmarshal_Msg fake_env frame_foo_no_params zeroMsg = Inr (request 1 ''foo'' []) \<and>
   handle fake_env (request 1 ''foo'' []) init =
     Panicked (PanicErr ''unexpected end of JSON input'') init \<and>
   GetHandler fake_env ([frame_foo_no_params, frame_getVersion], EOF) init =
     Crashed (PanicErr ''unexpected end of JSON input'') init \<and>
   handle fake_env (request 1 ''foo'' params_empty_object) init = Running init"
  by (simp add: GetHandler_def WsReadLoop_def wsRead_def Let_def zeroMsg_def
        frame_getVersion_def frame_foo_no_params_def frame_reply_def handler_simps fake_simps)

end
